theory Spec2Isabelle
  imports Main "HOL-Library.Log_Nat"
begin

section \<open>Strings of the host language\<close>

text \<open>
  The engine of \<^verbatim>\<open>src/db.js\<close> is a JavaScript class working on strings and plain
  objects. Strings are modelled as \<^typ>\<open>string\<close>: a list of 8-bit code units (the
  Latin-1 range of the host's 16-bit code units). Plain objects are modelled by their own
  properties; properties inherited from the host's object prototype are not part of the model.
\<close>

definition is_ws :: "char \<Rightarrow> bool" where
  \<comment> \<open>white space and line terminators, as \<^verbatim>\<open>trim\<close> and \<^verbatim>\<open>\s\<close> see them\<close>
  "is_ws c = ((of_char c :: nat) \<in> {9, 10, 11, 12, 13, 32, 160})"

definition trim :: "string \<Rightarrow> string" where
  "trim s = rev (dropWhile is_ws (rev (dropWhile is_ws s)))"

definition upper_char :: "char \<Rightarrow> string" where
  \<comment> \<open>the sharp s becomes two letters; the upper-case forms of 181 and 255 lie outside the
      8-bit range and are left as they are\<close>
  "upper_char c =
     (let n = (of_char c :: nat) in
      if 97 \<le> n \<and> n \<le> 122 then [char_of (n - 32)]
      else if n = 223 then ''SS''
      else if 224 \<le> n \<and> n \<le> 254 \<and> n \<noteq> 247 then [char_of (n - 32)]
      else [c])"

definition toUpperCase :: "string \<Rightarrow> string" where
  "toUpperCase s = concat (map upper_char s)"

definition lower_char :: "char \<Rightarrow> char" where
  "lower_char c =
     (let n = (of_char c :: nat) in
      if 65 \<le> n \<and> n \<le> 90 then char_of (n + 32)
      else if 192 \<le> n \<and> n \<le> 222 \<and> n \<noteq> 215 then char_of (n + 32)
      else c)"

definition toLowerCase :: "string \<Rightarrow> string" where
  "toLowerCase s = map lower_char s"

definition startsWith :: "string \<Rightarrow> string \<Rightarrow> bool" where
  "startsWith s p = (take (length p) s = p)"

definition endsWith :: "string \<Rightarrow> string \<Rightarrow> bool" where
  "endsWith s p = (length p \<le> length s \<and> drop (length s - length p) s = p)"

fun includes_str :: "string \<Rightarrow> string \<Rightarrow> bool" where
  "includes_str [] sub = (sub = [])"
| "includes_str (c # cs) sub = (startsWith (c # cs) sub \<or> includes_str cs sub)"

text \<open>
  \<^verbatim>\<open>s.split(sep)\<close> for a non-empty separator string: the pieces between the
  non-overlapping occurrences of \<open>sep\<close>, found from left to right. The source only
  splits at the constants \<^verbatim>\<open>" "\<close>, \<^verbatim>\<open>","\<close>, \<^verbatim>\<open>"="\<close> and the comparison operators.
\<close>

fun split_from :: "string \<Rightarrow> string \<Rightarrow> string \<Rightarrow> string list" where
  "split_from sep acc [] = [rev acc]"
| "split_from sep acc (c # cs) =
     (if startsWith (c # cs) sep
      then rev acc # split_from sep [] (drop (length sep - 1) cs)
      else split_from sep (c # acc) cs)"

definition js_split :: "string \<Rightarrow> string \<Rightarrow> string list" where
  "js_split s sep = split_from sep [] s"

text \<open>\<^verbatim>\<open>s.split(/\s+/)\<close>: the pieces between the maximal runs of white space.\<close>

function split_ws_from :: "string \<Rightarrow> string \<Rightarrow> string list" where
  "split_ws_from acc [] = [rev acc]"
| "split_ws_from acc (c # cs) =
     (if is_ws c then rev acc # split_ws_from [] (dropWhile is_ws cs)
      else split_ws_from (c # acc) cs)"
  by pat_completeness auto
termination
  by (relation "measure (\<lambda>(acc, s). length s)")
     (auto simp: less_Suc_eq_le length_dropWhile_le)

definition split_ws :: "string \<Rightarrow> string list" where
  "split_ws s = split_ws_from [] s"

section \<open>The regular expressions of the statement handlers\<close>

text \<open>
  Every handler recognises its statement with one unanchored, case-insensitive regular
  expression built from literal text, \<^verbatim>\<open>\w+\<close>, \<^verbatim>\<open>.+\<close>, capturing groups and one
  optional non-capturing group. The matcher below is the backtracking matcher of the host
  language for this fragment, in continuation-passing style: a greedy \<open>+\<close> tries the longest
  run first and gives characters back one at a time; an optional group is tried before it is
  skipped; the search tries every start position from left to right.
\<close>

datatype cls = WordCh | AnyCh

datatype re = Lit string | Plus cls | Grp nat re | Cat re re | Opt re

type_synonym caps = "(nat \<times> string) list"

definition ascii_upper :: "char \<Rightarrow> char" where
  "ascii_upper c =
     (let n = (of_char c :: nat) in if 97 \<le> n \<and> n \<le> 122 then char_of (n - 32) else c)"

definition ci_prefix :: "string \<Rightarrow> string \<Rightarrow> bool" where
  \<comment> \<open>the pattern text \<open>p\<close> (ASCII) starts the input \<open>s\<close>, letters compared without case\<close>
  "ci_prefix p s = (map ascii_upper (take (length p) s) = map ascii_upper p)"

definition is_word :: "char \<Rightarrow> bool" where
  "is_word c =
     (let n = (of_char c :: nat) in
      (48 \<le> n \<and> n \<le> 57) \<or> (65 \<le> n \<and> n \<le> 90) \<or> n = 95 \<or> (97 \<le> n \<and> n \<le> 122))"

fun in_cls :: "cls \<Rightarrow> char \<Rightarrow> bool" where
  "in_cls WordCh c = is_word c"
| "in_cls AnyCh c = ((of_char c :: nat) \<notin> {10, 13})"

fun try_lens :: "(string \<times> caps \<Rightarrow> caps option) \<Rightarrow> string \<Rightarrow> caps \<Rightarrow> nat \<Rightarrow> caps option" where
  "try_lens k s c 0 = None"
| "try_lens k s c (Suc n) =
     (case k (drop (Suc n) s, c) of
        Some r \<Rightarrow> Some r
      | None \<Rightarrow> try_lens k s c n)"

primrec rmatch :: "re \<Rightarrow> (string \<times> caps \<Rightarrow> caps option) \<Rightarrow> string \<times> caps \<Rightarrow> caps option" where
  "rmatch (Lit p) k x =
     (if ci_prefix p (fst x) then k (drop (length p) (fst x), snd x) else None)"
| "rmatch (Plus cl) k x =
     try_lens k (fst x) (snd x) (length (takeWhile (in_cls cl) (fst x)))"
| "rmatch (Grp i r) k x =
     rmatch r (\<lambda>y. k (fst y, (i, take (length (fst x) - length (fst y)) (fst x)) # snd y)) x"
| "rmatch (Cat a b) k x = rmatch a (rmatch b k) x"
| "rmatch (Opt r) k x =
     (case rmatch r k x of Some c \<Rightarrow> Some c | None \<Rightarrow> k x)"

fun re_exec :: "re \<Rightarrow> string \<Rightarrow> caps option" where
  "re_exec r [] = rmatch r (\<lambda>y. Some (snd y)) ([], [])"
| "re_exec r (c # cs) =
     (case rmatch r (\<lambda>y. Some (snd y)) (c # cs, []) of
        Some m \<Rightarrow> Some m
      | None \<Rightarrow> re_exec r cs)"

definition grp :: "caps \<Rightarrow> nat \<Rightarrow> string option" where
  \<comment> \<open>\<^verbatim>\<open>match[i]\<close>: \<open>None\<close> is the host's \<^verbatim>\<open>undefined\<close> of a group that took no part\<close>
  "grp m i = map_of m i"

definition cat :: "re list \<Rightarrow> re" where
  "cat rs = foldr Cat rs (Lit [])"

definition create_re :: re where
  \<comment> \<open>\<^verbatim>\<open>/CREATE TABLE (\w+) \((.+)\)/i\<close>\<close>
  "create_re = cat [Lit ''CREATE TABLE '', Grp 1 (Plus WordCh), Lit '' ('',
                    Grp 2 (Plus AnyCh), Lit '')'']"

definition insert_re :: re where
  \<comment> \<open>\<^verbatim>\<open>/INSERT INTO (\w+) VALUES \((.+)\)/i\<close>\<close>
  "insert_re = cat [Lit ''INSERT INTO '', Grp 1 (Plus WordCh), Lit '' VALUES ('',
                    Grp 2 (Plus AnyCh), Lit '')'']"

definition select_re :: re where
  \<comment> \<open>\<^verbatim>\<open>/SELECT (.+) FROM (\w+)(?: WHERE (.+))?/i\<close>\<close>
  "select_re = cat [Lit ''SELECT '', Grp 1 (Plus AnyCh), Lit '' FROM '', Grp 2 (Plus WordCh),
                    Opt (Cat (Lit '' WHERE '') (Grp 3 (Plus AnyCh)))]"

definition describe_re :: re where
  \<comment> \<open>\<^verbatim>\<open>/DESCRIBE (\w+)/i\<close>\<close>
  "describe_re = cat [Lit ''DESCRIBE '', Grp 1 (Plus WordCh)]"

definition update_re :: re where
  \<comment> \<open>\<^verbatim>\<open>/UPDATE (\w+) SET (.+)(?: WHERE (.+))?/i\<close>\<close>
  "update_re = cat [Lit ''UPDATE '', Grp 1 (Plus WordCh), Lit '' SET '', Grp 2 (Plus AnyCh),
                    Opt (Cat (Lit '' WHERE '') (Grp 3 (Plus AnyCh)))]"

definition delete_re :: re where
  \<comment> \<open>\<^verbatim>\<open>/DELETE FROM (\w+)(?: WHERE (.+))?/i\<close>\<close>
  "delete_re = cat [Lit ''DELETE FROM '', Grp 1 (Plus WordCh),
                    Opt (Cat (Lit '' WHERE '') (Grp 2 (Plus AnyCh)))]"

definition drop_re :: re where
  \<comment> \<open>\<^verbatim>\<open>/DROP TABLE (\w+)/i\<close>\<close>
  "drop_re = cat [Lit ''DROP TABLE '', Grp 1 (Plus WordCh)]"

section \<open>Values\<close>

text \<open>
  A number of the host language is a binary64 floating-point value. It is modelled by the
  rational it denotes (both zeros are the rational 0: no operation of the engine tells them
  apart), the two infinities and the not-a-number value. \<open>to_double\<close> rounds a rational
  to the nearest binary64 value, ties to even.
\<close>

datatype jsnum = NaN | PosInf | NegInf | Fin rat

definition pow2 :: "int \<Rightarrow> rat" where
  "pow2 e = (if 0 \<le> e then 2 ^ nat e else 1 / 2 ^ nat (- e))"

definition round_half_even :: "rat \<Rightarrow> int" where
  "round_half_even x =
     (let f = \<lfloor>x\<rfloor>; d = x - of_int f in
      if d < 1 / 2 then f
      else if 1 / 2 < d then f + 1
      else if even f then f else f + 1)"

definition floor_log2 :: "rat \<Rightarrow> int" where
  \<comment> \<open>for \<open>0 < a\<close>: the exponent \<open>e\<close> with \<open>2 ^ e \<le> a < 2 ^ (e + 1)\<close>\<close>
  "floor_log2 a =
     (let e0 = bitlen (fst (quotient_of a)) - bitlen (snd (quotient_of a)) in
      if pow2 e0 \<le> a then e0 else e0 - 1)"

definition to_double :: "rat \<Rightarrow> jsnum" where
  \<comment> \<open>\<open>m\<close> is the significand in units of the last place; the value overflows when it
      reaches \<open>2 ^ 53\<close> units at the largest exponent\<close>
  "to_double q =
     (if q = 0 then Fin 0
      else
        let a = \<bar>q\<bar>;
            e = max (floor_log2 a) (- 1022);
            ulp = pow2 (e - 52);
            m = round_half_even (a / ulp);
            r = of_int m * ulp
        in if 1023 < e \<or> (e = 1023 \<and> 9007199254740992 \<le> m)
           then (if q < 0 then NegInf else PosInf)
           else Fin (if q < 0 then - r else r))"

text \<open>
  \<^verbatim>\<open>Number(str)\<close> on a string: white space is trimmed, the empty string is 0, a signed
  decimal literal (with optional fraction and exponent), \<^verbatim>\<open>Infinity\<close>, and an unsigned
  hexadecimal, octal or binary integer literal denote their value, and anything else is
  not a number.
\<close>

definition digit_val :: "char \<Rightarrow> int" where
  "digit_val c =
     (let n = int (of_char c) in
      if 48 \<le> n \<and> n \<le> 57 then n - 48
      else if 97 \<le> n \<and> n \<le> 102 then n - 87
      else if 65 \<le> n \<and> n \<le> 70 then n - 55
      else 0)"

definition is_digit :: "int \<Rightarrow> char \<Rightarrow> bool" where
  \<comment> \<open>a digit of the given base (2, 8, 10 or 16)\<close>
  "is_digit base c =
     (let n = int (of_char c) in
      ((48 \<le> n \<and> n \<le> 57) \<or> (97 \<le> n \<and> n \<le> 102) \<or> (65 \<le> n \<and> n \<le> 70))
      \<and> digit_val c < base)"

definition digits_val :: "int \<Rightarrow> string \<Rightarrow> int" where
  "digits_val base ds = foldl (\<lambda>a c. a * base + digit_val c) 0 ds"

definition parse_radix :: "int \<Rightarrow> string \<Rightarrow> jsnum" where
  "parse_radix base ds =
     (if ds \<noteq> [] \<and> list_all (is_digit base) ds
      then to_double (of_int (digits_val base ds)) else NaN)"

definition parse_exponent :: "string \<Rightarrow> int option" where
  \<comment> \<open>the text after \<^verbatim>\<open>e\<close>: digits with an optional sign\<close>
  "parse_exponent s =
     (let ds = (if s \<noteq> [] \<and> (hd s = CHR ''+'' \<or> hd s = CHR ''-'') then tl s else s) in
      if ds \<noteq> [] \<and> list_all (is_digit 10) ds
      then Some (if s \<noteq> [] \<and> hd s = CHR ''-'' then - digits_val 10 ds
                 else digits_val 10 ds)
      else None)"

definition pow10 :: "int \<Rightarrow> rat" where
  "pow10 e = (if 0 \<le> e then 10 ^ nat e else 1 / 10 ^ nat (- e))"

definition parse_decimal :: "string \<Rightarrow> rat option" where
  \<comment> \<open>an unsigned decimal literal: \<^verbatim>\<open>12\<close>, \<^verbatim>\<open>12.\<close>, \<^verbatim>\<open>12.5\<close>, \<^verbatim>\<open>.5\<close>, each with an
      optional exponent part\<close>
  "parse_decimal s =
     (let ip = takeWhile (is_digit 10) s;
          r1 = dropWhile (is_digit 10) s;
          dot = (r1 \<noteq> [] \<and> hd r1 = CHR ''.'');
          fp = (if dot then takeWhile (is_digit 10) (tl r1) else []);
          r2 = (if dot then dropWhile (is_digit 10) (tl r1) else r1);
          mant = (of_int (digits_val 10 (ip @ fp)) :: rat) * pow10 (- int (length fp))
      in if ip = [] \<and> fp = [] then None
         else if r2 = [] then Some mant
         else if hd r2 = CHR ''e'' \<or> hd r2 = CHR ''E'' then
           (case parse_exponent (tl r2) of
              None \<Rightarrow> None
            | Some e \<Rightarrow> Some (mant * pow10 e))
         else None)"

definition parse_signed :: "string \<Rightarrow> jsnum" where
  "parse_signed s =
     (let neg = (s \<noteq> [] \<and> hd s = CHR ''-'');
          u = (if s \<noteq> [] \<and> (hd s = CHR ''+'' \<or> hd s = CHR ''-'') then tl s else s)
      in if u = ''Infinity'' then (if neg then NegInf else PosInf)
         else (case parse_decimal u of
                 None \<Rightarrow> NaN
               | Some q \<Rightarrow> to_double (if neg then - q else q)))"

definition str_to_number :: "string \<Rightarrow> jsnum" where
  "str_to_number str =
     (let t = trim str;
          p = toLowerCase (take 2 t)
      in if t = [] then Fin 0
         else if p = ''0x'' then parse_radix 16 (drop 2 t)
         else if p = ''0o'' then parse_radix 8 (drop 2 t)
         else if p = ''0b'' then parse_radix 2 (drop 2 t)
         else parse_signed t)"

text \<open>
  The values a row can hold, and \<^verbatim>\<open>undefined\<close>, which reading an absent property gives.
\<close>

datatype jsval = VUndef | VNull | VBool bool | VNum jsnum | VStr string

fun to_number :: "jsval \<Rightarrow> jsnum" where
  "to_number VUndef = NaN"
| "to_number VNull = Fin 0"
| "to_number (VBool b) = (if b then Fin 1 else Fin 0)"
| "to_number (VNum n) = n"
| "to_number (VStr s) = str_to_number s"

definition num_eq :: "jsnum \<Rightarrow> jsnum \<Rightarrow> bool" where
  "num_eq a b = (a \<noteq> NaN \<and> a = b)"

fun num_less :: "jsnum \<Rightarrow> jsnum \<Rightarrow> bool option" where
  \<comment> \<open>\<open>None\<close> is the undefined outcome of a comparison with not-a-number\<close>
  "num_less NaN b = None"
| "num_less a NaN = None"
| "num_less (Fin a) (Fin b) = Some (a < b)"
| "num_less NegInf b = Some (b \<noteq> NegInf)"
| "num_less a NegInf = Some False"
| "num_less PosInf b = Some False"
| "num_less a PosInf = Some True"

fun str_less :: "string \<Rightarrow> string \<Rightarrow> bool" where
  \<comment> \<open>code-unit order, a proper prefix first\<close>
  "str_less [] [] = False"
| "str_less [] (y # ys) = True"
| "str_less (x # xs) [] = False"
| "str_less (x # xs) (y # ys) =
     ((of_char x :: nat) < of_char y \<or> (x = y \<and> str_less xs ys))"

fun is_less_than :: "jsval \<Rightarrow> jsval \<Rightarrow> bool option" where
  \<comment> \<open>the abstract relational comparison: two strings by code units, anything else as numbers\<close>
  "is_less_than (VStr a) (VStr b) = Some (str_less a b)"
| "is_less_than a b = num_less (to_number a) (to_number b)"

definition js_lt :: "jsval \<Rightarrow> jsval \<Rightarrow> bool" where
  \<comment> \<open>\<^verbatim>\<open>a < b\<close>\<close>
  "js_lt a b = (is_less_than a b = Some True)"

definition js_gt :: "jsval \<Rightarrow> jsval \<Rightarrow> bool" where
  \<comment> \<open>\<^verbatim>\<open>a > b\<close>\<close>
  "js_gt a b = (is_less_than b a = Some True)"

definition js_le :: "jsval \<Rightarrow> jsval \<Rightarrow> bool" where
  \<comment> \<open>\<^verbatim>\<open>a <= b\<close>: \<open>b < a\<close> is neither true nor undefined\<close>
  "js_le a b = (is_less_than b a = Some False)"

definition js_ge :: "jsval \<Rightarrow> jsval \<Rightarrow> bool" where
  \<comment> \<open>\<^verbatim>\<open>a >= b\<close>\<close>
  "js_ge a b = (is_less_than a b = Some False)"

fun strict_eq :: "jsval \<Rightarrow> jsval \<Rightarrow> bool" where
  \<comment> \<open>\<^verbatim>\<open>a === b\<close>: the same kind and the same value\<close>
  "strict_eq VUndef VUndef = True"
| "strict_eq VNull VNull = True"
| "strict_eq (VBool a) (VBool b) = (a = b)"
| "strict_eq (VNum a) (VNum b) = num_eq a b"
| "strict_eq (VStr a) (VStr b) = (a = b)"
| "strict_eq a b = False"

fun loose_eq :: "jsval \<Rightarrow> jsval \<Rightarrow> bool" where
  \<comment> \<open>\<^verbatim>\<open>a == b\<close>: \<^verbatim>\<open>null\<close> and \<^verbatim>\<open>undefined\<close> equal each other and nothing else, a
      boolean is compared as 1 or 0, a string against a number as the number it denotes\<close>
  "loose_eq VUndef VNull = True"
| "loose_eq VNull VUndef = True"
| "loose_eq (VNum a) (VStr b) = num_eq a (str_to_number b)"
| "loose_eq (VStr a) (VNum b) = num_eq (str_to_number a) b"
| "loose_eq (VBool a) (VNum b) = num_eq (to_number (VBool a)) b"
| "loose_eq (VBool a) (VStr b) = num_eq (to_number (VBool a)) (str_to_number b)"
| "loose_eq (VNum a) (VBool b) = num_eq a (to_number (VBool b))"
| "loose_eq (VStr a) (VBool b) = num_eq (str_to_number a) (to_number (VBool b))"
| "loose_eq a b = strict_eq a b"

section \<open>Plain objects\<close>

text \<open>
  A plain object is the list of its own properties in insertion order. Assigning to a
  property that exists overwrites it in place, assigning to a new one appends it.
  Enumeration (\<^verbatim>\<open>Object.keys\<close>, \<^verbatim>\<open>Object.entries\<close>, \<^verbatim>\<open>Object.assign\<close>) visits the
  keys that are array indices first, in ascending numeric order, then the other keys in
  insertion order.
\<close>

type_synonym 'v obj = "(string \<times> 'v) list"

definition obj_get :: "'v obj \<Rightarrow> string \<Rightarrow> 'v option" where
  "obj_get ob k = map_of ob k"

fun obj_set :: "'v obj \<Rightarrow> string \<Rightarrow> 'v \<Rightarrow> 'v obj" where
  "obj_set [] k v = [(k, v)]"
| "obj_set (p # ps) k v = (if fst p = k then (k, v) # ps else p # obj_set ps k v)"

definition obj_delete :: "'v obj \<Rightarrow> string \<Rightarrow> 'v obj" where
  "obj_delete ob k = filter (\<lambda>p. fst p \<noteq> k) ob"

definition is_array_index :: "string \<Rightarrow> bool" where
  \<comment> \<open>the canonical decimal text of an integer from 0 to \<open>2 ^ 32 - 2\<close>\<close>
  "is_array_index k =
     (k \<noteq> [] \<and> list_all (is_digit 10) k \<and> (k = ''0'' \<or> hd k \<noteq> CHR ''0'')
      \<and> digits_val 10 k \<le> 4294967294)"

definition obj_entries :: "'v obj \<Rightarrow> (string \<times> 'v) list" where
  "obj_entries ob =
     sort_key (\<lambda>p. digits_val 10 (fst p)) (filter (\<lambda>p. is_array_index (fst p)) ob)
     @ filter (\<lambda>p. \<not> is_array_index (fst p)) ob"

definition obj_keys :: "'v obj \<Rightarrow> string list" where
  "obj_keys ob = map fst (obj_entries ob)"

definition obj_assign :: "'v obj \<Rightarrow> 'v obj \<Rightarrow> 'v obj" where
  \<comment> \<open>\<^verbatim>\<open>Object.assign(target, source)\<close>\<close>
  "obj_assign target source = fold (\<lambda>p t. obj_set t (fst p) (snd p)) (obj_entries source) target"

definition obj_read :: "jsval obj \<Rightarrow> string \<Rightarrow> jsval" where
  \<comment> \<open>\<^verbatim>\<open>row[k]\<close>: an absent property reads as \<^verbatim>\<open>undefined\<close>\<close>
  "obj_read ob k = (case obj_get ob k of None \<Rightarrow> VUndef | Some v \<Rightarrow> v)"

section \<open>The engine state and its results\<close>

type_synonym row = "jsval obj"

text \<open>
  The constraints object of a table holds the primary key's column name under the key
  \<^verbatim>\<open>primaryKey\<close> and the object \<^verbatim>\<open>{unique: true}\<close> under the name of every unique column.
\<close>

datatype cval = CName string | CUnique

record table =
  columns :: "string obj"
  constraints :: "cval obj"
  rows :: "row list"
  indexes :: "jsval obj"

record db =
  tables :: "table obj"
  history :: "string list"

definition new_db :: db where
  \<comment> \<open>the constructor\<close>
  "new_db = \<lparr>tables = [], history = []\<rparr>"

text \<open>
  The errors thrown inside the handlers, with the data their message is built from;
  \<open>TypeError\<close> is the host's own error for a method call on \<^verbatim>\<open>undefined\<close>.
  \<open>UnknownCommand\<close> is the error text the dispatcher returns itself.
\<close>

datatype failure =
    InvalidSyntax string
  | TableExists string
  | NoSuchTable string
  | ExpectedValues nat nat
  | DuplicatePrimaryKey jsval
  | UnknownCommand string
  | TypeError

datatype message =
    TableCreated string
  | RowInserted
  | RowsUpdated nat
  | RowsDeleted nat
  | TableDropped string

datatype result =
    Message message
  | Data "row list" nat "string list option"
  | Error failure

text \<open>What a call of \<^verbatim>\<open>execute\<close> does: it returns a result, or an error escapes it.\<close>

datatype outcome = Returned result | Uncaught failure

section \<open>Value parser\<close>

definition squote :: char where "squote = CHR 0x27"
definition dquote :: char where "dquote = CHR 0x22"

definition parseValue :: "string \<Rightarrow> jsval" where
  "parseValue str =
     (if startsWith str [squote] \<and> endsWith str [squote] then VStr (butlast (tl str))
      else if startsWith str [dquote] \<and> endsWith str [dquote] then VStr (butlast (tl str))
      else if toLowerCase str = ''null'' then VNull
      else if toLowerCase str = ''true'' then VBool True
      else if toLowerCase str = ''false'' then VBool False
      else if str_to_number str \<noteq> NaN then VNum (str_to_number str)
      else VStr str)"

text \<open>
  The scanner of a value list. Its state is the source's: the values pushed so far, the
  current token, whether a quote is open, and the quote character that opened it.
\<close>

fun parseValues_loop :: "string \<Rightarrow> jsval list \<Rightarrow> string \<Rightarrow> bool \<Rightarrow> string \<Rightarrow> jsval list" where
  "parseValues_loop [] vals current inQuotes quoteChar =
     (if trim current \<noteq> [] then vals @ [parseValue (trim current)] else vals)"
| "parseValues_loop (c # cs) vals current inQuotes quoteChar =
     (if (c = squote \<or> c = dquote) \<and> \<not> inQuotes
        then parseValues_loop cs vals (current @ [c]) True [c]
      else if [c] = quoteChar \<and> inQuotes
        then parseValues_loop cs (vals @ [VStr (current @ [c])]) [] False quoteChar
      else if c = CHR '','' \<and> \<not> inQuotes
        then parseValues_loop cs
               (if trim current \<noteq> [] then vals @ [parseValue (trim current)] else vals)
               [] inQuotes quoteChar
      else parseValues_loop cs vals (current @ [c]) inQuotes quoteChar)"

definition parseValues :: "string \<Rightarrow> jsval list" where
  "parseValues valuesStr = parseValues_loop valuesStr [] [] False []"

section \<open>Predicate evaluator\<close>

definition operators :: "string list" where
  "operators = [''>='', ''<='', ''!='', ''<>'', ''='', ''<'', ''>'']"

definition switch_op :: "string \<Rightarrow> jsval \<Rightarrow> jsval \<Rightarrow> bool option" where
  \<comment> \<open>the \<^verbatim>\<open>switch\<close>: \<open>None\<close> when no case returns\<close>
  "switch_op op leftVal rightVal =
     (if op = ''='' then Some (loose_eq leftVal rightVal)
      else if op = ''!='' \<or> op = ''<>'' then Some (\<not> loose_eq leftVal rightVal)
      else if op = ''<'' then Some (js_lt leftVal rightVal)
      else if op = ''>'' then Some (js_gt leftVal rightVal)
      else if op = ''<='' then Some (js_le leftVal rightVal)
      else if op = ''>='' then Some (js_ge leftVal rightVal)
      else None)"

text \<open>
  The loop over the operators. An operator that occurs in the condition splits it in at
  least two pieces, so the last case of the inner \<open>case\<close> is never taken
  (lemma \<open>includes_split\<close> below).
\<close>

fun where_loop :: "string list \<Rightarrow> row \<Rightarrow> string \<Rightarrow> bool" where
  "where_loop [] r condition = False"
| "where_loop (op # ops) r condition =
     (if includes_str condition op then
        (case map trim (js_split condition op) of
           left # right # rest \<Rightarrow>
             (case switch_op op (obj_read r left) (parseValue right) of
                Some b \<Rightarrow> b
              | None \<Rightarrow> where_loop ops r condition)
         | _ \<Rightarrow> False)
      else where_loop ops r condition)"

definition evaluateWhere :: "row \<Rightarrow> string \<Rightarrow> bool" where
  "evaluateWhere r condition = where_loop operators r condition"

section \<open>Statement handlers\<close>

text \<open>
  A handler takes the engine state and the normalised statement text and gives back the
  state it leaves and either the error it throws (\<open>Inl\<close>) or the result it returns
  (\<open>Inr\<close>). Capturing groups 1 and 2 take part in every match of the patterns that
  have them, so the branches for an absent group are never taken (lemmas
  \<open>groups_present\<close> and \<open>group_present\<close> below).
\<close>

type_synonym handled = "db \<times> (failure + result)"

definition add_column :: "string \<Rightarrow> string obj \<Rightarrow> cval obj \<Rightarrow> failure + (string obj \<times> cval obj)" where
  \<comment> \<open>the body of the loop over the column definitions; a definition of one word has no
      type to upper-case\<close>
  "add_column colDef cols cons =
     (case split_ws (trim colDef) of
        colName # colType # others \<Rightarrow>
          (let parts = colName # colType # others;
               cols1 = obj_set cols colName (toUpperCase colType);
               cons1 = (if ''PRIMARY'' \<in> set parts
                        then obj_set cons ''primaryKey'' (CName colName) else cons);
               cons2 = (if ''UNIQUE'' \<in> set parts
                        then obj_set cons1 colName CUnique else cons1)
           in Inr (cols1, cons2))
      | _ \<Rightarrow> Inl TypeError)"

fun create_columns :: "string list \<Rightarrow> string obj \<Rightarrow> cval obj \<Rightarrow> failure + (string obj \<times> cval obj)" where
  "create_columns [] cols cons = Inr (cols, cons)"
| "create_columns (colDef # defs) cols cons =
     (case add_column colDef cols cons of
        Inl e \<Rightarrow> Inl e
      | Inr p \<Rightarrow> create_columns defs (fst p) (snd p))"

definition createTable :: "db \<Rightarrow> string \<Rightarrow> handled" where
  "createTable d sql =
     (case re_exec create_re sql of
        None \<Rightarrow> (d, Inl (InvalidSyntax ''CREATE TABLE''))
      | Some m \<Rightarrow>
          (case (grp m 1, grp m 2) of
             (Some tableName, Some columnsDef) \<Rightarrow>
               (if obj_get (tables d) tableName \<noteq> None
                then (d, Inl (TableExists tableName))
                else
                  (case create_columns (js_split columnsDef '','') [] [] of
                     Inl e \<Rightarrow> (d, Inl e)
                   | Inr (cols, cons) \<Rightarrow>
                       (d\<lparr>tables := obj_set (tables d) tableName
                             \<lparr>columns = cols, constraints = cons, rows = [], indexes = []\<rparr>\<rparr>,
                        Inr (Message (TableCreated tableName)))))
           | _ \<Rightarrow> (d, Inl TypeError)))"

fun index_of :: "'a list \<Rightarrow> 'a \<Rightarrow> nat option" where
  "index_of [] a = None"
| "index_of (x # xs) a = (if x = a then Some 0 else map_option Suc (index_of xs a))"

definition value_at :: "jsval list \<Rightarrow> nat option \<Rightarrow> jsval" where
  \<comment> \<open>\<^verbatim>\<open>values[i]\<close>, where \<open>None\<close> is the index -1 of a failed \<^verbatim>\<open>indexOf\<close>\<close>
  "value_at vals i =
     (case i of None \<Rightarrow> VUndef | Some n \<Rightarrow> if n < length vals then vals ! n else VUndef)"

definition primary_key :: "table \<Rightarrow> string list \<Rightarrow> jsval list \<Rightarrow> (string \<times> jsval) option" where
  \<comment> \<open>when \<^verbatim>\<open>table.constraints.primaryKey\<close> is truthy: the property key \<^verbatim>\<open>pkCol\<close> is
      read with, and \<^verbatim>\<open>pkValue\<close>. A unique column that is itself named \<^verbatim>\<open>primaryKey\<close>
      leaves an object there, which is in no column list and reads rows under its text.\<close>
  "primary_key t columnNames vals =
     (case obj_get (constraints t) ''primaryKey'' of
        None \<Rightarrow> None
      | Some (CName pkCol) \<Rightarrow>
          if pkCol = [] then None
          else Some (pkCol, value_at vals (index_of columnNames pkCol))
      | Some CUnique \<Rightarrow> Some (''[object Object]'', VUndef))"

definition build_row :: "string list \<Rightarrow> jsval list \<Rightarrow> row" where
  "build_row columnNames vals =
     fold (\<lambda>p r. obj_set r (fst p) (snd p)) (zip columnNames vals) []"

definition insert_cmd :: "db \<Rightarrow> string \<Rightarrow> handled" where
  "insert_cmd d sql =
     (case re_exec insert_re sql of
        None \<Rightarrow> (d, Inl (InvalidSyntax ''INSERT''))
      | Some m \<Rightarrow>
          (case (grp m 1, grp m 2) of
             (Some tableName, Some valuesStr) \<Rightarrow>
               (case obj_get (tables d) tableName of
                  None \<Rightarrow> (d, Inl (NoSuchTable tableName))
                | Some t \<Rightarrow>
                    (let vals = parseValues valuesStr;
                         columnNames = obj_keys (columns t)
                     in if length vals \<noteq> length columnNames
                        then (d, Inl (ExpectedValues (length columnNames) (length vals)))
                        else
                          (case (case primary_key t columnNames vals of
                                   None \<Rightarrow> None
                                 | Some (pkCol, pkValue) \<Rightarrow>
                                     (case find (\<lambda>r. strict_eq (obj_read r pkCol) pkValue) (rows t) of
                                        None \<Rightarrow> None
                                      | Some existing \<Rightarrow> Some (DuplicatePrimaryKey pkValue))) of
                             Some e \<Rightarrow> (d, Inl e)
                           | None \<Rightarrow>
                               (d\<lparr>tables := obj_set (tables d) tableName
                                     (t\<lparr>rows := rows t @ [build_row columnNames vals]\<rparr>)\<rparr>,
                                Inr (Message RowInserted)))))
           | _ \<Rightarrow> (d, Inl TypeError)))"

definition truthy :: "string option \<Rightarrow> bool" where
  \<comment> \<open>\<^verbatim>\<open>if (whereClause)\<close>: defined and not the empty string\<close>
  "truthy w = (case w of None \<Rightarrow> False | Some s \<Rightarrow> s \<noteq> [])"

definition where_holds :: "string option \<Rightarrow> row \<Rightarrow> bool" where
  \<comment> \<open>\<^verbatim>\<open>this._evaluateWhere(row, whereClause)\<close> for a clause that is there\<close>
  "where_holds w r = (case w of None \<Rightarrow> False | Some c \<Rightarrow> evaluateWhere r c)"

definition project :: "string list \<Rightarrow> row \<Rightarrow> row" where
  "project columnNames r =
     fold (\<lambda>col selected.
             case obj_get r col of None \<Rightarrow> selected | Some v \<Rightarrow> obj_set selected col v)
          columnNames []"

definition select_cmd :: "db \<Rightarrow> string \<Rightarrow> handled" where
  "select_cmd d sql =
     (case re_exec select_re sql of
        None \<Rightarrow> (d, Inl (InvalidSyntax ''SELECT''))
      | Some m \<Rightarrow>
          (case (grp m 1, grp m 2) of
             (Some cols, Some tableName) \<Rightarrow>
               (let whereClause = grp m 3 in
                case obj_get (tables d) tableName of
                  None \<Rightarrow> (d, Inl (NoSuchTable tableName))
                | Some t \<Rightarrow>
                    (let rs = (if truthy whereClause
                               then filter (where_holds whereClause) (rows t) else rows t);
                         columnNames = (if cols = ''*'' then obj_keys (columns t)
                                        else map trim (js_split cols '',''));
                         res = map (project columnNames) rs
                     in (d, Inr (Data res (length res) (Some columnNames)))))
           | _ \<Rightarrow> (d, Inl TypeError)))"

definition showTables :: "db \<Rightarrow> handled" where
  "showTables d =
     (let names = obj_keys (tables d)
      in (d, Inr (Data (map (\<lambda>name. [(''Table'', VStr name)]) names) (length names) None)))"

definition key_flag :: "table \<Rightarrow> string \<Rightarrow> string" where
  \<comment> \<open>\<^verbatim>\<open>name === table.constraints.primaryKey ? "PRI" : ""\<close>\<close>
  "key_flag t name =
     (if obj_get (constraints t) ''primaryKey'' = Some (CName name) then ''PRI'' else [])"

definition describe :: "db \<Rightarrow> string \<Rightarrow> handled" where
  "describe d sql =
     (case re_exec describe_re sql of
        None \<Rightarrow> (d, Inl (InvalidSyntax ''DESCRIBE''))
      | Some m \<Rightarrow>
          (case grp m 1 of
             Some tableName \<Rightarrow>
               (case obj_get (tables d) tableName of
                  None \<Rightarrow> (d, Inl (NoSuchTable tableName))
                | Some t \<Rightarrow>
                    (let cols = map (\<lambda>p. [(''Field'', VStr (fst p)), (''Type'', VStr (snd p)),
                                           (''Key'', VStr (key_flag t (fst p)))])
                                    (obj_entries (columns t))
                     in (d, Inr (Data cols (length cols) None))))
           | None \<Rightarrow> (d, Inl TypeError)))"

text \<open>
  The assignments of a SET clause: each pair is split at \<^verbatim>\<open>=\<close>, the first two pieces are
  the column and the literal. A pair without \<^verbatim>\<open>=\<close> has no second piece, and parsing
  \<^verbatim>\<open>undefined\<close> throws.
\<close>

fun parse_set :: "string list \<Rightarrow> row \<Rightarrow> failure + row" where
  "parse_set [] updates = Inr updates"
| "parse_set (pair # pairs) updates =
     (case map trim (js_split pair ''='') of
        col # val # others \<Rightarrow> parse_set pairs (obj_set updates col (parseValue val))
      | _ \<Rightarrow> Inl TypeError)"

fun update_rows :: "string option \<Rightarrow> row \<Rightarrow> row list \<Rightarrow> nat \<Rightarrow> row list \<times> nat" where
  "update_rows w updates [] affected = ([], affected)"
| "update_rows w updates (r # rs) affected =
     (if \<not> truthy w \<or> where_holds w r
      then (case update_rows w updates rs (Suc affected) of
              (rs', n) \<Rightarrow> (obj_assign r updates # rs', n))
      else (case update_rows w updates rs affected of
              (rs', n) \<Rightarrow> (r # rs', n)))"

definition update_cmd :: "db \<Rightarrow> string \<Rightarrow> handled" where
  "update_cmd d sql =
     (case re_exec update_re sql of
        None \<Rightarrow> (d, Inl (InvalidSyntax ''UPDATE''))
      | Some m \<Rightarrow>
          (case (grp m 1, grp m 2) of
             (Some tableName, Some setClause) \<Rightarrow>
               (let whereClause = grp m 3 in
                case obj_get (tables d) tableName of
                  None \<Rightarrow> (d, Inl (NoSuchTable tableName))
                | Some t \<Rightarrow>
                    (case parse_set (js_split setClause '','') [] of
                       Inl e \<Rightarrow> (d, Inl e)
                     | Inr updates \<Rightarrow>
                         (case update_rows whereClause updates (rows t) 0 of
                            (rs', affected) \<Rightarrow>
                              (d\<lparr>tables := obj_set (tables d) tableName (t\<lparr>rows := rs'\<rparr>)\<rparr>,
                               Inr (Message (RowsUpdated affected))))))
           | _ \<Rightarrow> (d, Inl TypeError)))"

definition delete_cmd :: "db \<Rightarrow> string \<Rightarrow> handled" where
  "delete_cmd d sql =
     (case re_exec delete_re sql of
        None \<Rightarrow> (d, Inl (InvalidSyntax ''DELETE''))
      | Some m \<Rightarrow>
          (case grp m 1 of
             Some tableName \<Rightarrow>
               (let whereClause = grp m 2 in
                case obj_get (tables d) tableName of
                  None \<Rightarrow> (d, Inl (NoSuchTable tableName))
                | Some t \<Rightarrow>
                    (let initialCount = length (rows t);
                         rs' = (if truthy whereClause
                                then filter (\<lambda>r. \<not> where_holds whereClause r) (rows t)
                                else [])
                     in (d\<lparr>tables := obj_set (tables d) tableName (t\<lparr>rows := rs'\<rparr>)\<rparr>,
                         Inr (Message (RowsDeleted (initialCount - length rs'))))))
           | None \<Rightarrow> (d, Inl TypeError)))"

definition dropTable :: "db \<Rightarrow> string \<Rightarrow> handled" where
  "dropTable d sql =
     (case re_exec drop_re sql of
        None \<Rightarrow> (d, Inl (InvalidSyntax ''DROP TABLE''))
      | Some m \<Rightarrow>
          (case grp m 1 of
             Some tableName \<Rightarrow>
               (if obj_get (tables d) tableName = None
                then (d, Inl (NoSuchTable tableName))
                else (d\<lparr>tables := obj_delete (tables d) tableName\<rparr>,
                      Inr (Message (TableDropped tableName))))
           | None \<Rightarrow> (d, Inl TypeError)))"

section \<open>Dispatcher and snapshot\<close>

definition normalise :: "string \<Rightarrow> string" where
  \<comment> \<open>\<^verbatim>\<open>trim\<close>, then one trailing \<^verbatim>\<open>;\<close> is cut off\<close>
  "normalise raw = (let s = trim raw in if endsWith s '';'' then butlast s else s)"

definition dispatch :: "db \<Rightarrow> string \<Rightarrow> string \<Rightarrow> handled" where
  \<comment> \<open>the \<^verbatim>\<open>switch\<close> on the upper-cased first word\<close>
  "dispatch d command sql =
     (if command = ''CREATE'' then createTable d sql
      else if command = ''INSERT'' then insert_cmd d sql
      else if command = ''SELECT'' then select_cmd d sql
      else if command = ''UPDATE'' then update_cmd d sql
      else if command = ''DELETE'' then delete_cmd d sql
      else if command = ''DROP'' then dropTable d sql
      else if command = ''SHOW'' then showTables d
      else if command = ''DESCRIBE'' then describe d sql
      else (d, Inr (Error (UnknownCommand command))))"

definition catch :: "handled \<Rightarrow> db \<times> outcome" where
  \<comment> \<open>the \<^verbatim>\<open>try\<close> block around the switch: a thrown error becomes an error result\<close>
  "catch h = (case snd h of Inl e \<Rightarrow> (fst h, Returned (Error e)) | Inr r \<Rightarrow> (fst h, Returned r))"

text \<open>
  \<^verbatim>\<open>execute\<close> records the raw text, normalises it and takes the first non-empty piece
  between blanks as the command. Upper-casing that piece happens before the \<^verbatim>\<open>try\<close>
  block: when there is no such piece, the host's type error escapes the call.
\<close>

definition execute :: "db \<Rightarrow> string \<Rightarrow> db \<times> outcome" where
  "execute d0 raw =
     (let d = d0\<lparr>history := history d0 @ [raw]\<rparr>;
          sql = normalise raw;
          parts = filter (\<lambda>p. p \<noteq> []) (js_split sql '' '')
      in case parts of
           [] \<Rightarrow> (d, Uncaught TypeError)
         | p0 # ps \<Rightarrow> catch (dispatch d (toUpperCase p0) sql))"

definition toJSON :: "db \<Rightarrow> table obj" where
  "toJSON d = tables d"

definition fromJSON :: "db \<Rightarrow> table obj \<Rightarrow> db" where
  "fromJSON d data = d\<lparr>tables := data\<rparr>"

fun run :: "db \<Rightarrow> string list \<Rightarrow> db" where
  \<comment> \<open>a sequence of statements, each executed on the state the one before left\<close>
  "run d [] = d"
| "run d (sql # sqls) = run (fst (execute d sql)) sqls"

section \<open>Notions used in the statements\<close>

definition holds_op :: "string \<Rightarrow> jsval \<Rightarrow> jsval \<Rightarrow> bool" where
  \<comment> \<open>the case of the \<^verbatim>\<open>switch\<close> for \<open>op\<close> returns true\<close>
  "holds_op op a b = (switch_op op a b = Some True)"

definition first_operator :: "string \<Rightarrow> string option" where
  \<comment> \<open>the first operator, in the order of the list, that occurs in the condition\<close>
  "first_operator condition = find (includes_str condition) operators"

definition command_of :: "string \<Rightarrow> string option" where
  \<comment> \<open>the command word \<^verbatim>\<open>execute\<close> dispatches on, if the text has one\<close>
  "command_of raw =
     (case filter (\<lambda>p. p \<noteq> []) (js_split (normalise raw) '' '') of
        [] \<Rightarrow> None
      | p0 # ps \<Rightarrow> Some (toUpperCase p0))"

definition row_conforms :: "table \<Rightarrow> row \<Rightarrow> bool" where
  \<comment> \<open>the keys of the row are the declared columns, none more and none less\<close>
  "row_conforms t r = (set (map fst r) = set (map fst (columns t)))"






text \<open>
  The state after \<^verbatim>\<open>CREATE TABLE t (id INT PRIMARY KEY, x INT)\<close> and the inserts of
  \<^verbatim>\<open>(1, 0)\<close> and \<^verbatim>\<open>(2, 0)\<close> (lemma \<open>sample_db_run\<close>).
\<close>

definition sample_db :: db where
  "sample_db =
     \<lparr>tables = [(''t'', \<lparr>columns = [(''id'', ''INT''), (''x'', ''INT'')],
                          constraints = [(''primaryKey'', CName ''id'')],
                          rows = [[(''id'', VNum (Fin 1)), (''x'', VNum (Fin 0))],
                                  [(''id'', VNum (Fin 2)), (''x'', VNum (Fin 0))]],
                          indexes = []\<rparr>)],
      history = [''CREATE TABLE t (id INT PRIMARY KEY, x INT)'',
                 ''INSERT INTO t VALUES (1, 0)'', ''INSERT INTO t VALUES (2, 0)'']\<rparr>"

text \<open>
  The capturing groups that take part in every match of a pattern, and all its groups.
\<close>

primrec must_groups :: "re \<Rightarrow> nat set" where
  "must_groups (Lit p) = {}"
| "must_groups (Plus cl) = {}"
| "must_groups (Grp i r) = insert i (must_groups r)"
| "must_groups (Cat a b) = must_groups a \<union> must_groups b"
| "must_groups (Opt r) = {}"

primrec all_groups :: "re \<Rightarrow> nat set" where
  "all_groups (Lit p) = {}"
| "all_groups (Plus cl) = {}"
| "all_groups (Grp i r) = insert i (all_groups r)"
| "all_groups (Cat a b) = all_groups a \<union> all_groups b"
| "all_groups (Opt r) = all_groups r"


section \<open>Splitting and the predicate evaluator\<close>

lemma split_from_nonempty: "split_from sep acc s \<noteq> []"
  by (induction s arbitrary: acc) auto

lemma includes_split_from:
  "includes_str s sep \<Longrightarrow> sep \<noteq> [] \<Longrightarrow> 2 \<le> length (split_from sep acc s)"
proof (induction s arbitrary: acc)
  case Nil
  then show ?case by simp
next
  case (Cons c cs)
  show ?case
  proof (cases "startsWith (c # cs) sep")
    case True
    have "split_from sep [] (drop (length sep - 1) cs) \<noteq> []"
      by (rule split_from_nonempty)
    then have "1 \<le> length (split_from sep [] (drop (length sep - 1) cs))"
      by (cases "split_from sep [] (drop (length sep - 1) cs)") auto
    with True show ?thesis by simp
  next
    case False
    with Cons.prems have "includes_str cs sep" by simp
    from Cons.IH [OF this Cons.prems(2)] False show ?thesis by simp
  qed
qed

lemma includes_split:
  assumes "includes_str s sep" and "sep \<noteq> []"
  shows "\<exists>l r rest. js_split s sep = l # r # rest"
proof -
  have "2 \<le> length (js_split s sep)"
    using includes_split_from [OF assms] by (simp add: js_split_def)
  then show ?thesis
    by (cases "js_split s sep"; cases "tl (js_split s sep)") auto
qed

lemma switch_op_total:
  "op \<in> set operators \<Longrightarrow> switch_op op x y = Some (holds_op op x y)"
proof -
  assume "op \<in> set operators"
  then have "op = ''>='' \<or> op = ''<='' \<or> op = ''!='' \<or> op = ''<>'' \<or> op = ''=''
             \<or> op = ''<'' \<or> op = ''>''"
    by (simp add: operators_def)
  then show ?thesis
    by (elim disjE) (simp_all add: holds_op_def switch_op_def)
qed

lemma where_loop_find:
  assumes "set ops \<subseteq> set operators"
  shows "where_loop ops r c =
     (case find (includes_str c) ops of
        None \<Rightarrow> False
      | Some op \<Rightarrow>
          (case map trim (js_split c op) of
             left # right # rest \<Rightarrow> holds_op op (obj_read r left) (parseValue right)
           | _ \<Rightarrow> False))"
  using assms
proof (induction ops)
  case Nil
  show ?case by simp
next
  case (Cons op ops)
  then have op: "op \<in> set operators" and ops: "set ops \<subseteq> set operators" by auto
  show ?case
  proof (cases "includes_str c op")
    case True
    then show ?thesis
      by (simp add: switch_op_total [OF op] split: list.splits)
  next
    case False
    then show ?thesis using Cons.IH [OF ops] by simp
  qed
qed

lemma evaluateWhere_first:
  "evaluateWhere r c =
     (case first_operator c of
        None \<Rightarrow> False
      | Some op \<Rightarrow>
          (case map trim (js_split c op) of
             left # right # rest \<Rightarrow> holds_op op (obj_read r left) (parseValue right)
           | _ \<Rightarrow> False))"
  unfolding evaluateWhere_def first_operator_def by (rule where_loop_find) simp

lemma first_operator_mem:
  "first_operator c = Some op \<Longrightarrow> op \<in> set operators \<and> includes_str c op"
  unfolding first_operator_def by (auto simp: find_Some_iff)

section \<open>Ordering comparisons with null and undefined\<close>



lemma num_less_NaN_right: "num_less a NaN = None"
  by (cases a) simp_all

lemma less_than_undef_left: "is_less_than VUndef b = None"
  by (cases b) simp_all

lemma less_than_undef_right: "is_less_than a VUndef = None"
  by (cases a) (simp_all add: num_less_NaN_right)





section \<open>What the handlers leave unchanged\<close>

lemma createTable_throw: "createTable d sql = (d', Inl e) \<Longrightarrow> d' = d"
  by (auto simp: createTable_def split: option.splits sum.splits if_splits prod.splits)

lemma insert_cmd_throw: "insert_cmd d sql = (d', Inl e) \<Longrightarrow> d' = d"
  by (auto simp: insert_cmd_def Let_def split: option.splits sum.splits if_splits prod.splits)

lemma select_cmd_frame: "fst (select_cmd d sql) = d"
  by (auto simp: select_cmd_def Let_def split: option.splits sum.splits if_splits prod.splits)

lemma showTables_frame: "fst (showTables d) = d"
  by (simp add: showTables_def Let_def)

lemma describe_frame: "fst (describe d sql) = d"
  by (auto simp: describe_def Let_def split: option.splits sum.splits if_splits prod.splits)

lemma update_cmd_throw: "update_cmd d sql = (d', Inl e) \<Longrightarrow> d' = d"
  by (auto simp: update_cmd_def Let_def split: option.splits sum.splits if_splits prod.splits)

lemma delete_cmd_throw: "delete_cmd d sql = (d', Inl e) \<Longrightarrow> d' = d"
  by (auto simp: delete_cmd_def Let_def split: option.splits sum.splits if_splits prod.splits)

lemma dropTable_throw: "dropTable d sql = (d', Inl e) \<Longrightarrow> d' = d"
  by (auto simp: dropTable_def split: option.splits sum.splits if_splits prod.splits)

lemma createTable_no_error: "snd (createTable d sql) \<noteq> Inr (Error e)"
  by (auto simp: createTable_def split: option.splits sum.splits if_splits prod.splits)

lemma insert_cmd_no_error: "snd (insert_cmd d sql) \<noteq> Inr (Error e)"
  by (auto simp: insert_cmd_def Let_def split: option.splits sum.splits if_splits prod.splits)

lemma select_cmd_no_error: "snd (select_cmd d sql) \<noteq> Inr (Error e)"
  by (auto simp: select_cmd_def Let_def split: option.splits sum.splits if_splits prod.splits)

lemma showTables_no_error: "snd (showTables d) \<noteq> Inr (Error e)"
  by (simp add: showTables_def Let_def)

lemma describe_no_error: "snd (describe d sql) \<noteq> Inr (Error e)"
  by (auto simp: describe_def Let_def split: option.splits sum.splits if_splits prod.splits)

lemma update_cmd_no_error: "snd (update_cmd d sql) \<noteq> Inr (Error e)"
  by (auto simp: update_cmd_def Let_def split: option.splits sum.splits if_splits prod.splits)

lemma delete_cmd_no_error: "snd (delete_cmd d sql) \<noteq> Inr (Error e)"
  by (auto simp: delete_cmd_def Let_def split: option.splits sum.splits if_splits prod.splits)

lemma dropTable_no_error: "snd (dropTable d sql) \<noteq> Inr (Error e)"
  by (auto simp: dropTable_def split: option.splits sum.splits if_splits prod.splits)

lemma dispatch_range:
  "dispatch d c sql \<in> {createTable d sql, insert_cmd d sql, select_cmd d sql, update_cmd d sql,
      delete_cmd d sql, dropTable d sql, showTables d, describe d sql,
      (d, Inr (Error (UnknownCommand c)))}"
  by (simp add: dispatch_def)

lemma dispatch_error:
  assumes "dispatch d c sql = (d', x)" and "x = Inl e \<or> x = Inr (Error e)"
  shows "d' = d"
proof -
  from dispatch_range [of d c sql] assms(1)
  consider "createTable d sql = (d', x)" | "insert_cmd d sql = (d', x)"
    | "select_cmd d sql = (d', x)" | "update_cmd d sql = (d', x)"
    | "delete_cmd d sql = (d', x)" | "dropTable d sql = (d', x)"
    | "showTables d = (d', x)" | "describe d sql = (d', x)"
    | "(d, Inr (Error (UnknownCommand c)) :: failure + result) = (d', x)"
    by auto
  then show ?thesis
  proof cases
    case 1
    with assms(2) show ?thesis
      using createTable_throw [of d sql d' e] createTable_no_error [of d sql e] by auto
  next
    case 2
    with assms(2) show ?thesis
      using insert_cmd_throw [of d sql d' e] insert_cmd_no_error [of d sql e] by auto
  next
    case 3
    then show ?thesis using select_cmd_frame [of d sql] by simp
  next
    case 4
    with assms(2) show ?thesis
      using update_cmd_throw [of d sql d' e] update_cmd_no_error [of d sql e] by auto
  next
    case 5
    with assms(2) show ?thesis
      using delete_cmd_throw [of d sql d' e] delete_cmd_no_error [of d sql e] by auto
  next
    case 6
    with assms(2) show ?thesis
      using dropTable_throw [of d sql d' e] dropTable_no_error [of d sql e] by auto
  next
    case 7
    then show ?thesis using showTables_frame [of d] by simp
  next
    case 8
    then show ?thesis using describe_frame [of d sql] by simp
  next
    case 9
    then show ?thesis by simp
  qed
qed

lemma execute_cases:
  "execute d raw =
     (case command_of raw of
        None \<Rightarrow> (d\<lparr>history := history d @ [raw]\<rparr>, Uncaught TypeError)
      | Some c \<Rightarrow> catch (dispatch (d\<lparr>history := history d @ [raw]\<rparr>) c (normalise raw)))"
  by (simp add: execute_def command_of_def Let_def split: list.splits)

section \<open>Results do not depend on the history\<close>

lemma sample_db_run:
  "run new_db [''CREATE TABLE t (id INT PRIMARY KEY, x INT)'',
               ''INSERT INTO t VALUES (1, 0)'', ''INSERT INTO t VALUES (2, 0)''] = sample_db"
  by code_simp

lemma createTable_history: "snd (createTable (d\<lparr>history := h\<rparr>) sql) = snd (createTable d sql)"
  by (simp add: createTable_def split: option.splits sum.splits prod.splits)

lemma insert_cmd_history: "snd (insert_cmd (d\<lparr>history := h\<rparr>) sql) = snd (insert_cmd d sql)"
  by (simp add: insert_cmd_def Let_def split: option.splits sum.splits prod.splits)

lemma select_cmd_history: "snd (select_cmd (d\<lparr>history := h\<rparr>) sql) = snd (select_cmd d sql)"
  by (simp add: select_cmd_def Let_def split: option.splits sum.splits prod.splits)

lemma showTables_history: "snd (showTables (d\<lparr>history := h\<rparr>)) = snd (showTables d)"
  by (simp add: showTables_def Let_def)

lemma describe_history: "snd (describe (d\<lparr>history := h\<rparr>) sql) = snd (describe d sql)"
  by (simp add: describe_def Let_def split: option.splits sum.splits prod.splits)

lemma update_cmd_history: "snd (update_cmd (d\<lparr>history := h\<rparr>) sql) = snd (update_cmd d sql)"
  by (simp add: update_cmd_def Let_def split: option.splits sum.splits prod.splits)

lemma delete_cmd_history: "snd (delete_cmd (d\<lparr>history := h\<rparr>) sql) = snd (delete_cmd d sql)"
  by (simp add: delete_cmd_def Let_def split: option.splits sum.splits prod.splits)

lemma dropTable_history: "snd (dropTable (d\<lparr>history := h\<rparr>) sql) = snd (dropTable d sql)"
  by (simp add: dropTable_def split: option.splits sum.splits prod.splits)

lemma dispatch_history: "snd (dispatch (d\<lparr>history := h\<rparr>) c sql) = snd (dispatch d c sql)"
  by (simp add: dispatch_def createTable_history insert_cmd_history select_cmd_history
        showTables_history describe_history update_cmd_history delete_cmd_history
        dropTable_history)

lemma snd_execute:
  "snd (execute d raw) =
     (case command_of raw of
        None \<Rightarrow> Uncaught TypeError
      | Some c \<Rightarrow> (case snd (dispatch d c (normalise raw)) of
                     Inl e \<Rightarrow> Returned (Error e)
                   | Inr r \<Rightarrow> Returned r))"
  by (simp add: execute_cases catch_def dispatch_history split: option.splits sum.splits)

lemma execute_returns_iff:
  "(\<exists>r. snd (execute d raw) = Returned r) = (command_of raw \<noteq> None)"
  by (auto simp: snd_execute split: option.splits sum.splits)

section \<open>The primary-key check\<close>


section \<open>Rows and declared columns\<close>














lemma row_conforms_rows [simp]: "row_conforms (t\<lparr>rows := rs\<rparr>) = row_conforms t"
  by (simp add: row_conforms_def fun_eq_iff)









section \<open>Capturing groups\<close>

lemma try_lens_Some: "try_lens k s c n = Some m \<Longrightarrow> \<exists>j. k (drop j s, c) = Some m"
  by (induction n) (auto split: option.splits)

lemma rmatch_caps:
  "rmatch r k x = Some m \<Longrightarrow>
   \<exists>y. k y = Some m \<and> fst ` set (snd x) \<union> must_groups r \<subseteq> fst ` set (snd y)
          \<and> fst ` set (snd y) \<subseteq> fst ` set (snd x) \<union> all_groups r"
proof (induction r arbitrary: k x m)
  case (Lit p)
  then show ?case by (auto split: if_splits)
next
  case (Plus cl)
  then obtain j where "k (drop j (fst x), snd x) = Some m"
    using try_lens_Some by fastforce
  then show ?case by (intro exI [of _ "(drop j (fst x), snd x)"]) simp
next
  case (Grp i r)
  let ?k = "\<lambda>y. k (fst y, (i, take (length (fst x) - length (fst y)) (fst x)) # snd y)"
  from Grp.prems have "rmatch r ?k x = Some m" by simp
  from Grp.IH [OF this] obtain y where y: "?k y = Some m"
    "fst ` set (snd x) \<union> must_groups r \<subseteq> fst ` set (snd y)"
    "fst ` set (snd y) \<subseteq> fst ` set (snd x) \<union> all_groups r" by blast
  show ?case
    by (intro exI [of _ "(fst y, (i, take (length (fst x) - length (fst y)) (fst x)) # snd y)"])
       (use y in auto)
next
  case (Cat a b)
  from Cat.prems have "rmatch a (rmatch b k) x = Some m" by simp
  from Cat.IH(1) [OF this] obtain y where y: "rmatch b k y = Some m"
    "fst ` set (snd x) \<union> must_groups a \<subseteq> fst ` set (snd y)"
    "fst ` set (snd y) \<subseteq> fst ` set (snd x) \<union> all_groups a" by blast
  from Cat.IH(2) [OF y(1)] obtain z where z: "k z = Some m"
    "fst ` set (snd y) \<union> must_groups b \<subseteq> fst ` set (snd z)"
    "fst ` set (snd z) \<subseteq> fst ` set (snd y) \<union> all_groups b" by blast
  have lo: "X \<union> (Ma \<union> Mb) \<subseteq> Z" if "X \<union> Ma \<subseteq> Y" "Y \<union> Mb \<subseteq> Z"
    for X Y Z Ma Mb :: "nat set"
    using that by blast
  have hi: "Z \<subseteq> X \<union> (Aa \<union> Ab)" if "Y \<subseteq> X \<union> Aa" "Z \<subseteq> Y \<union> Ab"
    for X Y Z Aa Ab :: "nat set"
    using that by blast
  show ?case
    using z(1) lo [OF y(2) z(2)] hi [OF y(3) z(3)]
    by (intro exI [of _ z]) simp
next
  case (Opt r)
  show ?case
  proof (cases "rmatch r k x")
    case None
    with Opt.prems have "k x = Some m" by simp
    then show ?thesis by (intro exI [of _ x]) simp
  next
    case (Some m')
    with Opt.prems have "rmatch r k x = Some m" by simp
    from Opt.IH [OF this] show ?thesis by auto
  qed
qed

lemma re_exec_groups:
  "re_exec r s = Some m \<Longrightarrow> must_groups r \<subseteq> fst ` set m \<and> fst ` set m \<subseteq> all_groups r"
proof (induction s)
  case Nil
  then have "rmatch r (\<lambda>y. Some (snd y)) ([], []) = Some m" by simp
  from rmatch_caps [OF this] show ?case by auto
next
  case (Cons c cs)
  show ?case
  proof (cases "rmatch r (\<lambda>y. Some (snd y)) (c # cs, [])")
    case None
    with Cons show ?thesis by simp
  next
    case (Some m')
    with Cons.prems have "rmatch r (\<lambda>y. Some (snd y)) (c # cs, []) = Some m" by simp
    from rmatch_caps [OF this] show ?thesis by auto
  qed
qed

lemma grp_present: "i \<in> fst ` set m \<Longrightarrow> \<exists>s. grp m i = Some s"
  by (cases "map_of m i") (auto simp: grp_def map_of_eq_None_iff)

lemma grp_absent: "i \<notin> fst ` set m \<Longrightarrow> grp m i = None"
  by (simp add: grp_def map_of_eq_None_iff)

lemma groups_present:
  assumes "re_exec r s = Some m"
    and "r \<in> {create_re, insert_re, select_re, update_re}"
  shows "\<exists>a b. grp m 1 = Some a \<and> grp m 2 = Some b"
proof -
  from assms(2) have "{1, 2} \<subseteq> must_groups r"
    by (auto simp: create_re_def insert_re_def select_re_def update_re_def cat_def)
  with re_exec_groups [OF assms(1)] have "1 \<in> fst ` set m" "2 \<in> fst ` set m" by auto
  then show ?thesis using grp_present by blast
qed

lemma group_present:
  assumes "re_exec r s = Some m"
    and "r \<in> {describe_re, delete_re, drop_re}"
  shows "\<exists>a. grp m 1 = Some a"
proof -
  from assms(2) have "1 \<in> must_groups r"
    by (auto simp: describe_re_def delete_re_def drop_re_def cat_def)
  with re_exec_groups [OF assms(1)] have "1 \<in> fst ` set m" by auto
  then show ?thesis using grp_present by blast
qed

section \<open>The UPDATE pattern and its WHERE group\<close>

lemma ci_prefix_head: "ci_prefix (q # p) s \<Longrightarrow> \<exists>h t. s = h # t \<and> ascii_upper h = ascii_upper q"
  by (cases s) (auto simp: ci_prefix_def)

lemma no_where_after_run: "\<not> ci_prefix '' WHERE '' (dropWhile (in_cls AnyCh) s)"
proof
  assume "ci_prefix '' WHERE '' (dropWhile (in_cls AnyCh) s)"
  from ci_prefix_head [OF this] obtain h t
    where d: "dropWhile (in_cls AnyCh) s = h # t" and u: "ascii_upper h = ascii_upper CHR '' ''"
    by blast
  have "\<not> in_cls AnyCh h"
    using hd_dropWhile [of "in_cls AnyCh" s] d by simp
  then have nl: "(of_char h :: nat) \<in> {10, 13}" by simp
  then have "ascii_upper h = h" by (auto simp: ascii_upper_def)
  with u have "h = CHR '' ''" by (simp add: ascii_upper_def)
  with nl show False by simp
qed

lemma update_tail:
  assumes "rmatch (Cat (Grp 2 (Plus AnyCh))
                     (Cat (Opt (Cat (Lit '' WHERE '') (Grp 3 (Plus AnyCh)))) (Lit [])))
             (\<lambda>y. Some (snd y)) (s, c) = Some m"
  shows "m = (2, takeWhile (in_cls AnyCh) s) # c"
proof -
  define k where "k = (\<lambda>y :: string \<times> caps.
      rmatch (Cat (Opt (Cat (Lit '' WHERE '') (Grp 3 (Plus AnyCh)))) (Lit []))
        (\<lambda>y. Some (snd y)) (fst y, (2, take (length s - length (fst y)) s) # snd y))"
  define n where "n = length (takeWhile (in_cls AnyCh) s)"
  have t: "try_lens k s c n = Some m" using assms by (simp add: k_def n_def)
  have le: "n \<le> length s" unfolding n_def by (rule length_takeWhile_le)
  have dr: "drop n s = dropWhile (in_cls AnyCh) s" by (simp add: n_def dropWhile_eq_drop)
  have tk: "take n s = takeWhile (in_cls AnyCh) s"
    by (simp add: n_def takeWhile_eq_take [symmetric])
  have nw: "\<not> ci_prefix '' WHERE '' (drop n s)"
    unfolding dr by (rule no_where_after_run)
  have e: "ci_prefix [] (drop n s)" by (simp add: ci_prefix_def)
  have first: "k (drop n s, c) = Some ((2, takeWhile (in_cls AnyCh) s) # c)"
    using le nw e by (simp add: k_def tk)
  show ?thesis
  proof (cases n)
    case 0
    with t show ?thesis by simp
  next
    case (Suc j)
    with t first show ?thesis by simp
  qed
qed

lemma update_re_split:
  "rmatch update_re k x =
   rmatch (Cat (Lit ''UPDATE '') (Cat (Grp 1 (Plus WordCh)) (Lit '' SET '')))
     (rmatch (Cat (Grp 2 (Plus AnyCh))
                (Cat (Opt (Cat (Lit '' WHERE '') (Grp 3 (Plus AnyCh)))) (Lit []))) k) x"
  by (simp add: update_re_def cat_def)

lemma update_match_no_where:
  assumes "rmatch update_re (\<lambda>y. Some (snd y)) (s, []) = Some m"
  shows "grp m 3 = None"
proof -
  from assms update_re_split
  have "rmatch (Cat (Lit ''UPDATE '') (Cat (Grp 1 (Plus WordCh)) (Lit '' SET '')))
     (rmatch (Cat (Grp 2 (Plus AnyCh))
                (Cat (Opt (Cat (Lit '' WHERE '') (Grp 3 (Plus AnyCh)))) (Lit [])))
        (\<lambda>y. Some (snd y))) (s, []) = Some m"
    by simp
  from rmatch_caps [OF this] obtain y where
    y: "rmatch (Cat (Grp 2 (Plus AnyCh))
                (Cat (Opt (Cat (Lit '' WHERE '') (Grp 3 (Plus AnyCh)))) (Lit [])))
        (\<lambda>y. Some (snd y)) y = Some m"
    and k: "fst ` set (snd y) \<subseteq> {1}"
    by auto
  from update_tail [of "fst y" "snd y" m] y
  have "m = (2, takeWhile (in_cls AnyCh) (fst y)) # snd y" by simp
  with k have "3 \<notin> fst ` set m" by auto
  then show ?thesis by (rule grp_absent)
qed

lemma update_where_never_captured: "re_exec update_re sql = Some m \<Longrightarrow> grp m 3 = None"
proof (induction sql)
  case Nil
  then show ?case using update_match_no_where [of "[]" m] by simp
next
  case (Cons c cs)
  show ?case
  proof (cases "rmatch update_re (\<lambda>y. Some (snd y)) (c # cs, [])")
    case None
    with Cons show ?thesis by simp
  next
    case (Some m')
    with Cons.prems have "rmatch update_re (\<lambda>y. Some (snd y)) (c # cs, []) = Some m" by simp
    then show ?thesis by (rule update_match_no_where)
  qed
qed

lemma update_rows_no_where:
  "update_rows None ups rs a = (map (\<lambda>r. obj_assign r ups) rs, a + length rs)"
  by (induction rs arbitrary: a) (simp_all add: truthy_def)

lemma update_cmd_updates_all:
  assumes "update_cmd d sql = (d', Inr (Message (RowsUpdated n)))"
  shows "\<exists>tableName t ups.
           obj_get (tables d) tableName = Some t \<and> n = length (rows t)
           \<and> d' = d\<lparr>tables := obj_set (tables d) tableName
                       (t\<lparr>rows := map (\<lambda>r. obj_assign r ups) (rows t)\<rparr>)\<rparr>"
  using assms update_where_never_captured [of sql]
  by (auto simp: update_cmd_def Let_def update_rows_no_where
           split: option.splits sum.splits prod.splits)

section \<open>Quoted tokens in a value list\<close>

lemma quoted_scan:
  "q \<notin> set body \<Longrightarrow>
   parseValues_loop (body @ rest) vals cur True [q] = parseValues_loop rest vals (cur @ body) True [q]"
  by (induction body arbitrary: cur) auto

lemma parseValues_quoted:
  assumes "q = squote \<or> q = dquote" and "q \<notin> set body"
  shows "parseValues (q # body @ [q]) = [VStr (q # body @ [q])]"
proof -
  have "parseValues (q # body @ [q]) = parseValues_loop (body @ [q]) [] [q] True [q]"
    using assms(1) by (auto simp: parseValues_def)
  also have "\<dots> = parseValues_loop [q] [] ([q] @ body) True [q]"
    by (rule quoted_scan [OF assms(2)])
  also have "\<dots> = [VStr (q # body @ [q])]"
    using assms(1) by (auto simp: trim_def)
  finally show ?thesis .
qed

section \<open>The claims\<close>

text \<open>
  Claim C1. \<^verbatim>\<open>UPDATE t SET col=val WHERE cond\<close> is to overwrite the given columns only in
  the rows for which the predicate holds, and to report the number of those rows. The
  handler does not do that: in its pattern the group of the SET clause runs to the end of
  the line, so the optional WHERE group never takes part in a match (lemma
  \<open>update_where_never_captured\<close>) and every accepted UPDATE rewrites every row (lemma
  \<open>update_cmd_updates_all\<close>). On the table with the rows \<^verbatim>\<open>(1, 0)\<close> and \<^verbatim>\<open>(2, 0)\<close>,
  \<^verbatim>\<open>UPDATE t SET x=1 WHERE id=2\<close> stores the text \<^verbatim>\<open>1 WHERE id\<close> in column \<open>x\<close> of
  both rows and reports two updated rows.
\<close>

theorem update_ignores_where:
  "execute (run new_db [''CREATE TABLE t (id INT PRIMARY KEY, x INT)'',
                        ''INSERT INTO t VALUES (1, 0)'', ''INSERT INTO t VALUES (2, 0)''])
     ''UPDATE t SET x=1 WHERE id=2''
   = (\<lparr>tables = [(''t'', \<lparr>columns = [(''id'', ''INT''), (''x'', ''INT'')],
                          constraints = [(''primaryKey'', CName ''id'')],
                          rows = [[(''id'', VNum (Fin 1)), (''x'', VStr ''1 WHERE id'')],
                                  [(''id'', VNum (Fin 2)), (''x'', VStr ''1 WHERE id'')]],
                          indexes = []\<rparr>)],
       history = [''CREATE TABLE t (id INT PRIMARY KEY, x INT)'',
                  ''INSERT INTO t VALUES (1, 0)'', ''INSERT INTO t VALUES (2, 0)'',
                  ''UPDATE t SET x=1 WHERE id=2'']\<rparr>,
      Returned (Message (RowsUpdated 2)))"
  unfolding sample_db_run by code_simp

text \<open>
  Claim C2. A literal between matching quotes is to yield the enclosed text without the
  quote characters, in an INSERT value list as in a WHERE or SET literal, so that the
  users scenario returns the row with the name \<^verbatim>\<open>Bob\<close>. The value parser strips the
  quotes, but the scanner of a value list pushes a quoted token as it stands, quotes
  included (lemma \<open>parseValues_quoted\<close>): the scenario returns one row whose name is the
  five characters \<^verbatim>\<open>'Bob'\<close>.
\<close>

theorem quoted_insert_keeps_quotes:
  "parseValue (squote # ''Bob'' @ [squote]) = VStr ''Bob''
   \<and> parseValues (squote # ''Bob'' @ [squote]) = [VStr (squote # ''Bob'' @ [squote])]
   \<and> snd (execute
        (run new_db
           [''CREATE TABLE users (id INT PRIMARY KEY, name TEXT, email TEXT UNIQUE, age INT)'',
            ''INSERT INTO users VALUES (1,'Alice','a@x.com',25)'',
            ''INSERT INTO users VALUES (2,'Bob','b@x.com',30)''])
        ''SELECT name, age FROM users WHERE age >= 30'')
     = Returned (Data [[(''name'', VStr (squote # ''Bob'' @ [squote])), (''age'', VNum (Fin 30))]]
                  1 (Some [''name'', ''age'']))"
  by code_simp

text \<open>
  Claim C3. \<^verbatim>\<open>execute\<close> is to return a result for every input string, the empty and the
  blank ones included. It does not: for the empty string, for blanks only and for a lone
  terminator there is no command word, the upper-casing in front of the \<^verbatim>\<open>try\<close> block
  fails, and the type error escapes the call. A text with a command word does get a
  result (lemma \<open>execute_returns_iff\<close>).
\<close>

theorem execute_empty_uncaught:
  "snd (execute d []) = Uncaught TypeError \<and> snd (execute d ''   '') = Uncaught TypeError
   \<and> snd (execute d '';'') = Uncaught TypeError"
proof -
  have "filter (\<lambda>p. p \<noteq> []) (js_split (normalise []) '' '') = []" by code_simp
  moreover have "filter (\<lambda>p. p \<noteq> []) (js_split (normalise ''   '') '' '') = []" by code_simp
  moreover have "filter (\<lambda>p. p \<noteq> []) (js_split (normalise '';'') '' '') = []" by code_simp
  ultimately show ?thesis by (simp add: execute_def)
qed




text \<open>
  Claim C5. A statement whose execution returns an error result leaves the catalog as it
  was: the tables, with their columns, constraints and rows, are the same after the call.
  The witness runs a second CREATE TABLE of an existing name, an INSERT with a duplicate
  primary key and an INSERT with the wrong number of values.
\<close>

theorem failed_statement_keeps_catalog:
  assumes "execute d raw = (d', Returned (Error e))"
  shows "tables d' = tables d"
proof (cases "command_of raw")
  case None
  with assms show ?thesis by (simp add: execute_cases)
next
  case (Some c)
  let ?d1 = "d\<lparr>history := history d @ [raw]\<rparr>"
  obtain d2 x where h: "dispatch ?d1 c (normalise raw) = (d2, x)"
    by (cases "dispatch ?d1 c (normalise raw)")
  with assms Some have "d2 = d'" and "x = Inl e \<or> x = Inr (Error e)"
    by (auto simp: execute_cases catch_def split: sum.splits)
  with dispatch_error [OF h] have "d' = ?d1" by simp
  then show ?thesis by simp
qed

theorem failed_statement_keeps_catalog_witness:
  "snd (execute sample_db ''CREATE TABLE t (y INT)'') = Returned (Error (TableExists ''t''))
   \<and> tables (fst (execute sample_db ''CREATE TABLE t (y INT)'')) = tables sample_db
   \<and> snd (execute sample_db ''INSERT INTO t VALUES (1, 5)'')
        = Returned (Error (DuplicatePrimaryKey (VNum (Fin 1))))
   \<and> tables (fst (execute sample_db ''INSERT INTO t VALUES (1, 5)'')) = tables sample_db
   \<and> snd (execute sample_db ''INSERT INTO t VALUES (3)'') = Returned (Error (ExpectedValues 2 1))
   \<and> tables (fst (execute sample_db ''INSERT INTO t VALUES (3)'')) = tables sample_db"
proof -
  have a: "snd (execute sample_db ''CREATE TABLE t (y INT)'') = Returned (Error (TableExists ''t''))"
    by code_simp
  have b: "snd (execute sample_db ''INSERT INTO t VALUES (1, 5)'')
        = Returned (Error (DuplicatePrimaryKey (VNum (Fin 1))))"
    by code_simp
  have c: "snd (execute sample_db ''INSERT INTO t VALUES (3)'') = Returned (Error (ExpectedValues 2 1))"
    by code_simp
  show ?thesis
    using a b c
      failed_statement_keeps_catalog [of sample_db "''CREATE TABLE t (y INT)''"
        "fst (execute sample_db ''CREATE TABLE t (y INT)'')" "TableExists ''t''"]
      failed_statement_keeps_catalog [of sample_db "''INSERT INTO t VALUES (1, 5)''"
        "fst (execute sample_db ''INSERT INTO t VALUES (1, 5)'')" "DuplicatePrimaryKey (VNum (Fin 1))"]
      failed_statement_keeps_catalog [of sample_db "''INSERT INTO t VALUES (3)''"
        "fst (execute sample_db ''INSERT INTO t VALUES (3)'')" "ExpectedValues 2 1"]
    by (metis prod.collapse)
qed







text \<open>
  Claim C8. The predicate evaluator tests the operators against the condition text in the
  order \<^verbatim>\<open>>=\<close>, \<^verbatim>\<open><=\<close>, \<^verbatim>\<open>!=\<close>, \<^verbatim>\<open><>\<close>, \<^verbatim>\<open>=\<close>, \<^verbatim>\<open><\<close>, \<^verbatim>\<open>>\<close> and splits at the
  first operator found: a condition without any of them is false; otherwise the first
  operator of that order that occurs in the text splits it, the trimmed first piece names
  the column, the trimmed second piece is the literal, and the result is that operator's
  comparison. So \<^verbatim>\<open>age<=30\<close> is evaluated with \<^verbatim>\<open><=\<close>, and a row whose age is 30
  satisfies it.
\<close>

theorem operator_priority:
  "operators = [''>='', ''<='', ''!='', ''<>'', ''='', ''<'', ''>'']
   \<and> (first_operator c = None \<longrightarrow> \<not> evaluateWhere r c)
   \<and> (\<forall>op. first_operator c = Some op \<longrightarrow>
         (\<exists>l rt rest. js_split c op = l # rt # rest
            \<and> evaluateWhere r c = holds_op op (obj_read r (trim l)) (parseValue (trim rt))))
   \<and> first_operator ''age<=30'' = Some ''<=''
   \<and> evaluateWhere [(''age'', VNum (Fin 30))] ''age<=30''"
proof (intro conjI allI impI)
  show "operators = [''>='', ''<='', ''!='', ''<>'', ''='', ''<'', ''>'']"
    by (simp add: operators_def)
  show "\<not> evaluateWhere r c" if "first_operator c = None"
    using that by (simp add: evaluateWhere_first)
  show "\<exists>l rt rest. js_split c op = l # rt # rest
            \<and> evaluateWhere r c = holds_op op (obj_read r (trim l)) (parseValue (trim rt))"
    if h: "first_operator c = Some op" for op
  proof -
    from first_operator_mem [OF h] have m: "op \<in> set operators" and i: "includes_str c op"
      by simp_all
    from m have "op \<noteq> []" by (auto simp: operators_def)
    from includes_split [OF i this] obtain l rt rest where s: "js_split c op = l # rt # rest"
      by blast
    then show ?thesis using h by (simp add: evaluateWhere_first)
  qed
  show "first_operator ''age<=30'' = Some ''<=''" by code_simp
  show "evaluateWhere [(''age'', VNum (Fin 30))] ''age<=30''" by code_simp
qed

theorem operator_priority_witness:
  "first_operator ''age<=30'' = Some ''<='' \<and> js_split ''age<=30'' ''<='' = [''age'', ''30'']
   \<and> evaluateWhere [(''age'', VNum (Fin 30))] ''age<=30''
       = holds_op ''<='' (obj_read [(''age'', VNum (Fin 30))] (trim ''age'')) (parseValue (trim ''30''))"
proof -
  have s: "js_split ''age<=30'' ''<='' = [''age'', ''30'']" by code_simp
  from operator_priority [of "''age<=30''" "[(''age'', VNum (Fin 30))]"]
  show ?thesis using s by auto
qed

text \<open>
  Claim C9. Exporting the catalog with \<^verbatim>\<open>toJSON\<close>, importing it into a fresh engine with
  \<^verbatim>\<open>fromJSON\<close> and running a statement there gives the result the statement gives on the
  original engine; in particular \<^verbatim>\<open>SELECT * FROM t\<close> returns the same rows, with the same
  columns, in the same order, for every table.
\<close>

theorem snapshot_round_trip:
  "tables (fromJSON new_db (toJSON d)) = tables d
   \<and> snd (execute (fromJSON new_db (toJSON d)) sql) = snd (execute d sql)"
proof -
  have "fromJSON new_db (toJSON d) = d\<lparr>history := []\<rparr>"
    by (simp add: fromJSON_def toJSON_def new_db_def)
  then show ?thesis by (simp add: snd_execute dispatch_history split: option.splits)
qed

text \<open>
  Claim C10. A statement whose command word is SELECT, SHOW or DESCRIBE leaves the whole
  catalog unchanged, whether it succeeds or fails: the state after the call is the state
  before it with the raw text appended to the history.
\<close>

theorem reads_keep_catalog:
  assumes "command_of raw \<in> {Some ''SELECT'', Some ''SHOW'', Some ''DESCRIBE''}"
  shows "fst (execute d raw) = d\<lparr>history := history d @ [raw]\<rparr>"
proof -
  let ?d1 = "d\<lparr>history := history d @ [raw]\<rparr>"
  from assms consider "command_of raw = Some ''SELECT''" | "command_of raw = Some ''SHOW''"
    | "command_of raw = Some ''DESCRIBE''" by auto
  then show ?thesis
  proof cases
    case 1
    then show ?thesis
      using select_cmd_frame [of ?d1 "normalise raw"]
      by (simp add: execute_cases dispatch_def catch_def split: sum.splits)
  next
    case 2
    then show ?thesis
      using showTables_frame [of ?d1]
      by (simp add: execute_cases dispatch_def catch_def split: sum.splits)
  next
    case 3
    then show ?thesis
      using describe_frame [of ?d1 "normalise raw"]
      by (simp add: execute_cases dispatch_def catch_def split: sum.splits)
  qed
qed

theorem reads_keep_catalog_witness:
  "command_of ''SELECT * FROM t WHERE id = 2'' = Some ''SELECT''
   \<and> fst (execute sample_db ''SELECT * FROM t WHERE id = 2'')
       = sample_db\<lparr>history := history sample_db @ [''SELECT * FROM t WHERE id = 2'']\<rparr>"
proof -
  have a: "command_of ''SELECT * FROM t WHERE id = 2'' = Some ''SELECT''" by code_simp
  then show ?thesis
    using reads_keep_catalog [of "''SELECT * FROM t WHERE id = 2''" sample_db] by simp
qed

end
